theory Spec2Isabelle
  imports Complex_Main "HOL-Library.Log_Nat"
begin

section \<open>Python values\<close>

text \<open>
  Amounts, scores and clock readings are Python floats. A float is embedded as the
  rational number it holds; the sums, comparisons and remainders of the agents are taken
  on these numbers. The quotient and the product of the tax check, whose rounding can
  decide the check, are rounded to a double as the machine does. A Python string is a \<open>string\<close>: its characters are the code points below
  256. A value that may be \<open>None\<close> is an \<open>option\<close>. Every f-string of the source is a
  constructor that carries the interpolated values, in the order of the template.
\<close>

definition py_not :: "string option \<Rightarrow> bool" where
  \<comment> \<open>\<open>not s\<close> for an optional string: \<open>None\<close> and \<open>""\<close> are falsy.\<close>
  "py_not s = (case s of None \<Rightarrow> True | Some t \<Rightarrow> t = [])"

definition py_mod :: "rat \<Rightarrow> rat \<Rightarrow> rat" where
  \<comment> \<open>\<open>x % y\<close>: the remainder has the sign of the divisor.\<close>
  "py_mod x y = x - y * of_int \<lfloor>x / y\<rfloor>"

definition py_round2 :: "rat \<Rightarrow> rat" where
  \<comment> \<open>\<open>round(x, 2)\<close>: to the nearest hundredth, a tie to the even one.\<close>
  "py_round2 x =
     (let y = x * 100; f = \<lfloor>y\<rfloor>; d = y - of_int f
      in of_int (if d < 1 / 2 then f else if 1 / 2 < d then f + 1
                 else if even f then f else f + 1) / 100)"

datatype double = Finite rat | Infinity

definition round_half_even :: "rat \<Rightarrow> int" where
  \<comment> \<open>The nearest integer, a tie to the even one.\<close>
  "round_half_even y =
     (let f = \<lfloor>y\<rfloor>; d = y - of_int f
      in if d < 1 / 2 then f else if 1 / 2 < d then f + 1
         else if even f then f else f + 1)"

definition binade :: "rat \<Rightarrow> int" where
  \<comment> \<open>The exponent \<open>e\<close> of a positive \<open>x\<close>: \<open>2 ^ e \<le> x < 2 ^ (e + 1)\<close>.\<close>
  "binade x = (if 1 \<le> x then bitlen \<lfloor>x\<rfloor> - 1 else - bitlen (\<lceil>1 / x\<rceil> - 1))"

definition double_of :: "rat \<Rightarrow> double" where
  \<comment> \<open>The double a non-negative \<open>x\<close> is rounded to (IEEE 754 binary64, to the nearest, a
      tie to the even significand): 53 significant bits, spaced \<open>2 ^ - 1074\<close> below
      \<open>2 ^ - 1022\<close>, and infinity once the rounded value reaches \<open>2 ^ 1024\<close>.\<close>
  "double_of x =
     (if x = 0 then Finite 0
      else (let e = max (binade x) (- 1022);
                ulp = 2 powi (e - 52);
                r = of_int (round_half_even (x / ulp)) * ulp
            in if 2 powi 1024 \<le> r then Infinity else Finite r))"

definition float_div :: "rat \<Rightarrow> rat \<Rightarrow> double" where
  \<comment> \<open>\<open>x / y\<close> on two positive floats.\<close>
  "float_div x y = double_of (x / y)"

fun float_mul :: "double \<Rightarrow> rat \<Rightarrow> double" where
  \<comment> \<open>\<open>x * y\<close> on a non-negative \<open>x\<close> and a positive float \<open>y\<close>.\<close>
  "float_mul (Finite x) y = double_of (x * y)"
| "float_mul Infinity y = Infinity"

fun float_less :: "double \<Rightarrow> rat \<Rightarrow> bool" where
  "float_less (Finite x) c = (x < c)"
| "float_less Infinity c = False"

fun float_greater :: "double \<Rightarrow> rat \<Rightarrow> bool" where
  "float_greater (Finite x) c = (c < x)"
| "float_greater Infinity c = True"

definition isdigit_char :: "char \<Rightarrow> bool" where
  \<comment> \<open>\<open>str.isdigit\<close> on one character: 0-9 and the superscripts two, three, one.\<close>
  "isdigit_char c =
     (let n = (of_char c :: nat)
      in (48 \<le> n \<and> n \<le> 57) \<or> n = 178 \<or> n = 179 \<or> n = 185)"

definition isdigit :: "string \<Rightarrow> bool" where
  "isdigit s = (s \<noteq> [] \<and> list_all isdigit_char s)"

definition match_all :: "char \<Rightarrow> string \<Rightarrow> bool" where
  \<comment> \<open>\<open>re.match(r'^[c]+$', s)\<close>: one or more \<open>c\<close>; \<open>$\<close> also matches before a last newline.\<close>
  "match_all c s =
     (let body = (if s \<noteq> [] \<and> last s = CHR 0x0A then butlast s else s)
      in body \<noteq> [] \<and> list_all (\<lambda>d. d = c) body)"

section \<open>Fraud agent\<close>

record extraction =
  invoice_number :: "string option"
  date :: "string option"
  vendor :: "string option"
  total_amount :: rat
  currency :: string
  po_number :: "string option"
  tax_amount :: "rat option"
  confidence :: rat

record processed_invoice =
  inv_invoice_number :: "string option"
  inv_vendor :: "string option"
  inv_amount :: rat
  inv_date :: "string option"
  inv_timestamp :: rat

datatype duplicate_message =
    No_invoice_number_to_check
  | Already_processed string "string option"
  | Exists_for_different_vendor string
  | No_duplicate_found

datatype frequency_message =
    No_vendor_to_check
  | Multiple_within_1_hour string nat
  | Multiple_today string nat
  | Normal_frequency

datatype pattern_message =
    No_invoice_number
  | Suspiciously_simple string
  | Invalid_pattern string
  | Normal_pattern

datatype fraud_flag =
    Duplicate_invoice duplicate_message
  | Very_high_amount string rat
  | High_amount string rat
  | Suspicious_round_amount string rat
  | Frequency frequency_message
  | Missing_critical_fields "string list"
  | Pattern pattern_message
  | Tax_calculation_inconsistent
  | No_fraud_indicators_detected

record fraud_results =
  is_suspicious :: bool
  risk_score :: rat
  risk_level :: string
  flags :: "fraud_flag list"
  checks_performed :: nat
  duplicate_check :: "bool \<times> duplicate_message"
  frequency_check :: "bool \<times> frequency_message"
  pattern_check :: "bool \<times> pattern_message"

definition high_amount :: rat where
  "high_amount = 10000"

definition very_high_amount :: rat where
  "very_high_amount = 50000"

definition suspicious_frequency_same_day :: nat where
  "suspicious_frequency_same_day = 3"

definition suspicious_frequency_same_hour :: nat where
  "suspicious_frequency_same_hour = 2"

definition round_amount_min :: rat where
  "round_amount_min = 1000"

fun find_duplicate ::
  "processed_invoice list \<Rightarrow> string \<Rightarrow> string option \<Rightarrow> bool \<times> duplicate_message" where
  "find_duplicate [] n v = (False, No_duplicate_found)"
| "find_duplicate (entry # rest) n v =
     (if inv_invoice_number entry = Some n
      then (if inv_vendor entry = v then (True, Already_processed n v)
            else (False, Exists_for_different_vendor n))
      else find_duplicate rest n v)"

definition check_duplicate ::
  "processed_invoice list \<Rightarrow> string option \<Rightarrow> string option \<Rightarrow> bool \<times> duplicate_message" where
  "check_duplicate processed_invoices invoice_number' vendor' =
     (case invoice_number' of
        None \<Rightarrow> (False, No_invoice_number_to_check)
      | Some n \<Rightarrow>
          if n = [] then (False, No_invoice_number_to_check)
          else find_duplicate processed_invoices n vendor')"

definition is_suspicious_round_amount :: "rat \<Rightarrow> bool" where
  "is_suspicious_round_amount amount =
     (if amount < round_amount_min then False
      else if py_mod amount 100 = 0 \<and> 1000 \<le> amount then True
      else False)"

fun count_vendor :: "rat \<Rightarrow> string \<Rightarrow> processed_invoice list \<Rightarrow> nat \<times> nat \<Rightarrow> nat \<times> nat" where
  "count_vendor now v [] (today_count, recent_count) = (today_count, recent_count)"
| "count_vendor now v (entry # rest) (today_count, recent_count) =
     (if inv_vendor entry = Some v
      then (let time_diff = now - inv_timestamp entry
            in count_vendor now v rest
                 (if time_diff < 86400 then today_count + 1 else today_count,
                  if time_diff < 3600 then recent_count + 1 else recent_count))
      else count_vendor now v rest (today_count, recent_count))"

definition check_vendor_frequency ::
  "rat \<Rightarrow> processed_invoice list \<Rightarrow> string option \<Rightarrow> bool \<times> frequency_message" where
  "check_vendor_frequency now processed_invoices vendor' =
     (case vendor' of
        None \<Rightarrow> (False, No_vendor_to_check)
      | Some v \<Rightarrow>
          if v = [] then (False, No_vendor_to_check)
          else (let (today_count, recent_count) = count_vendor now v processed_invoices (0, 0)
                in if suspicious_frequency_same_hour \<le> recent_count
                   then (True, Multiple_within_1_hour v (recent_count + 1))
                   else if suspicious_frequency_same_day \<le> today_count
                   then (True, Multiple_today v (today_count + 1))
                   else (False, Normal_frequency)))"

definition check_missing_fields :: "extraction \<Rightarrow> string list" where
  \<comment> \<open>A string is missing when falsy; the amount when falsy or not positive.\<close>
  "check_missing_fields data =
     (if py_not (invoice_number data) then [''invoice_number''] else []) @
     (if py_not (vendor data) then [''vendor''] else []) @
     (if py_not (date data) then [''date''] else []) @
     (if total_amount data = 0 \<or> total_amount data \<le> 0 then [''total_amount''] else [])"

definition check_invoice_pattern :: "string option \<Rightarrow> bool \<times> pattern_message" where
  "check_invoice_pattern invoice_number' =
     (case invoice_number' of
        None \<Rightarrow> (False, No_invoice_number)
      | Some n \<Rightarrow>
          if n = [] then (False, No_invoice_number)
          else if isdigit n \<and> length n \<le> 3 then (True, Suspiciously_simple n)
          else if match_all CHR ''0'' n \<or> match_all CHR ''1'' n then (True, Invalid_pattern n)
          else (False, Normal_pattern))"

definition check_amount_consistency :: "extraction \<Rightarrow> bool" where
  "check_amount_consistency data =
     (let total = total_amount data
      in case tax_amount data of
           None \<Rightarrow> True
         | Some tax \<Rightarrow>
             if tax = 0 \<or> tax \<le> 0 then True
             else if 0 < total
             then (let tax_percentage = float_mul (float_div tax total) 100
                   in if float_less tax_percentage 3 \<or> float_greater tax_percentage 25
                      then False else True)
             else True)"

definition get_risk_level :: "rat \<Rightarrow> string" where
  "get_risk_level score =
     (if 7 / 10 \<le> score then ''HIGH''
      else if 4 / 10 \<le> score then ''MEDIUM''
      else if 2 / 10 \<le> score then ''LOW''
      else ''MINIMAL'')"

definition store_invoice ::
  "rat \<Rightarrow> processed_invoice list \<Rightarrow> string option \<Rightarrow> string option \<Rightarrow> rat \<Rightarrow> string option
     \<Rightarrow> processed_invoice list" where
  \<comment> \<open>\<open>xs[-100:]\<close> keeps the last 100 elements.\<close>
  "store_invoice now processed_invoices invoice_number' vendor' amount date' =
     (let appended = processed_invoices @
            [\<lparr>inv_invoice_number = invoice_number', inv_vendor = vendor', inv_amount = amount,
              inv_date = date', inv_timestamp = now\<rparr>]
      in if 100 < length appended then drop (length appended - 100) appended else appended)"

definition fire :: "bool \<Rightarrow> fraud_flag \<Rightarrow> rat \<Rightarrow> fraud_flag list \<times> rat \<Rightarrow> fraud_flag list \<times> rat" where
  \<comment> \<open>One check of \<open>detect\<close>: when it fires, \<open>flags.append(flag); risk_score += weight\<close>.\<close>
  "fire fires flag weight acc =
     (if fires then (fst acc @ [flag], snd acc + weight) else acc)"

definition detect_checks ::
  "rat \<Rightarrow> processed_invoice list \<Rightarrow> extraction \<Rightarrow> fraud_flag list \<times> rat" where
  \<comment> \<open>The seven checks of \<open>detect\<close>, in their order: \<open>flags\<close> and \<open>risk_score\<close> as they
      stand before the cap. \<open>now_check\<close> is the clock reading of the frequency check.\<close>
  "detect_checks now_check processed_invoices extraction_data =
     (let invoice_number = invoice_number extraction_data;
          vendor = vendor extraction_data;
          amount = total_amount extraction_data;
          currency = currency extraction_data;
          acc0 = ([], 0);
          duplicate_check = check_duplicate processed_invoices invoice_number vendor;
          acc1 = fire (fst duplicate_check) (Duplicate_invoice (snd duplicate_check)) (5 / 10) acc0;
          acc2 = (if very_high_amount \<le> amount
                  then fire True (Very_high_amount currency amount) (3 / 10) acc1
                  else fire (high_amount \<le> amount) (High_amount currency amount) (2 / 10) acc1);
          acc3 = fire (is_suspicious_round_amount amount)
                   (Suspicious_round_amount currency amount) (15 / 100) acc2;
          frequency_check = check_vendor_frequency now_check processed_invoices vendor;
          acc4 = fire (fst frequency_check) (Frequency (snd frequency_check)) (25 / 100) acc3;
          missing_fields = check_missing_fields extraction_data;
          acc5 = fire (missing_fields \<noteq> []) (Missing_critical_fields missing_fields) (2 / 10) acc4;
          pattern_check = check_invoice_pattern invoice_number;
          acc6 = fire (fst pattern_check) (Pattern (snd pattern_check)) (1 / 10) acc5
      in fire (\<not> check_amount_consistency extraction_data)
           Tax_calculation_inconsistent (1 / 10) acc6)"

definition detect ::
  "rat \<Rightarrow> rat \<Rightarrow> processed_invoice list \<Rightarrow> extraction
     \<Rightarrow> fraud_results \<times> processed_invoice list" where
  \<comment> \<open>\<open>now_check\<close> and \<open>now_store\<close> are the two readings of \<open>datetime.now()\<close>, in the
      frequency check and in \<open>_store_invoice\<close>; the ledger \<open>self.processed_invoices\<close> is
      passed in and returned.\<close>
  "detect now_check now_store processed_invoices extraction_data =
     (let invoice_number = invoice_number extraction_data;
          vendor = vendor extraction_data;
          amount = total_amount extraction_data;
          date = date extraction_data;
          checked = detect_checks now_check processed_invoices extraction_data;
          flags = fst checked;
          risk_score = min (snd checked) 1;
          is_suspicious = (3 / 10 \<le> risk_score);
          stored = store_invoice now_store processed_invoices invoice_number vendor amount date
      in (\<lparr>is_suspicious = is_suspicious,
           risk_score = py_round2 risk_score,
           risk_level = get_risk_level risk_score,
           flags = (if flags \<noteq> [] then flags else [No_fraud_indicators_detected]),
           checks_performed = 7,
           duplicate_check = check_duplicate processed_invoices invoice_number vendor,
           frequency_check = check_vendor_frequency now_check processed_invoices vendor,
           pattern_check = check_invoice_pattern invoice_number\<rparr>,
          stored))"

fun detect_all ::
  "processed_invoice list \<Rightarrow> (rat \<times> rat \<times> extraction) list \<Rightarrow> processed_invoice list" where
  \<comment> \<open>The ledger after a sequence of calls of \<open>detect\<close> on one agent; each call comes with
      its two clock readings.\<close>
  "detect_all processed_invoices [] = processed_invoices"
| "detect_all processed_invoices ((now_check, now_store, extraction_data) # calls) =
     detect_all (snd (detect now_check now_store processed_invoices extraction_data)) calls"

section \<open>Policy agent\<close>

definition isspace_char :: "char \<Rightarrow> bool" where
  \<comment> \<open>\<open>str.isspace\<close> on one character.\<close>
  "isspace_char c =
     (let n = (of_char c :: nat)
      in (9 \<le> n \<and> n \<le> 13) \<or> (28 \<le> n \<and> n \<le> 32) \<or> n = 133 \<or> n = 160)"

definition strip :: "string \<Rightarrow> string" where
  "strip s = rev (dropWhile isspace_char (rev (dropWhile isspace_char s)))"

definition lower_char :: "char \<Rightarrow> char" where
  "lower_char c =
     (let n = (of_char c :: nat)
      in if (65 \<le> n \<and> n \<le> 90) \<or> (192 \<le> n \<and> n \<le> 222 \<and> n \<noteq> 215)
         then char_of (n + 32) else c)"

definition lower :: "string \<Rightarrow> string" where
  "lower s = map lower_char s"

fun py_in :: "string \<Rightarrow> string \<Rightarrow> bool" where
  \<comment> \<open>\<open>s in t\<close>: \<open>s\<close> occurs in \<open>t\<close> as a substring.\<close>
  "py_in s [] = (s = [])"
| "py_in s (c # cs) = (take (length s) (c # cs) = s \<or> py_in s cs)"

definition format_char :: "char \<Rightarrow> bool" where
  \<comment> \<open>The class \<open>[A-Z0-9#-]\<close> under \<open>re.IGNORECASE\<close>.\<close>
  "format_char c =
     (let n = (of_char c :: nat)
      in (65 \<le> n \<and> n \<le> 90) \<or> (97 \<le> n \<and> n \<le> 122) \<or> (48 \<le> n \<and> n \<le> 57)
         \<or> c = CHR ''#'' \<or> c = CHR ''-'')"

definition match_format :: "string \<Rightarrow> bool" where
  \<comment> \<open>\<open>re.match(r'^[A-Z0-9#-]+$', s, re.IGNORECASE)\<close>; \<open>$\<close> also matches before a last
      newline.\<close>
  "match_format s =
     (let body = (if s \<noteq> [] \<and> last s = CHR 0x0A then butlast s else s)
      in body \<noteq> [] \<and> list_all format_char body)"

datatype policy_message =
    Missing_required_fields "string list"
  | No_vendor_name_provided
  | Vendor_is_approved string
  | Vendor_matched string string
  | Vendor_is_similar string string
  | Vendor_not_in_approved_list string
  | Within_auto_approval_limit
  | Requires_manager_approval rat
  | Requires_director_approval rat
  | Requires_CFO_approval rat
  | Requires_board_approval rat
  | Amount_requires_approval rat string
  | Amount_below_minimum rat
  | Amount_exceeds_maximum rat
  | Amount_within_range
  | PO_number_required rat
  | PO_requirements_met
  | Invoice_number_missing
  | Invoice_number_too_short string
  | Invoice_number_unusual_characters string
  | Invoice_number_format_valid
  | Invoice_date_missing
  | Date_format_not_validated string
  | Invoice_date_too_old string int
  | Invoice_date_in_future string
  | Invoice_getting_old int
  | Invoice_date_valid int
  | Unusual_currency string

record vendor_result =
  approved :: bool
  vendor_message :: policy_message
  match_type :: "string option"
  vendor_warning :: "policy_message option"

record approval_result =
  level :: string
  approver :: string
  approval_message :: policy_message

record date_result =
  date_valid :: bool
  date_message :: "policy_message option"
  date_warning :: "policy_message option"

record policy_results =
  compliant :: bool
  violations :: "policy_message list"
  warnings :: "policy_message list"
  approval_level :: string
  approver_required :: string
  policy_checks_performed :: nat
  vendor_check :: vendor_result
  approval_check :: approval_result
  amount_check :: "bool \<times> policy_message"
  po_check :: "bool \<times> policy_message"
  date_check :: date_result

definition approved_vendors :: "string list" where
  "approved_vendors =
     [''Acme Corp'', ''ACME Corporation'', ''ACMECorporation'',
      ''TechSolutions Inc'', ''Tech Solutions Inc'',
      ''OfficeSupplies Co'', ''Office Supplies Co'',
      ''GlobalServices Ltd'', ''Global Services Ltd'',
      ''DataSystems Inc'', ''Data Systems Inc'',
      ''CloudTech Solutions'', ''Cloud Tech Solutions'',
      ''Microsoft'', ''Google'', ''Amazon'', ''Adobe'']"

definition max_invoice_age_days :: int where
  "max_invoice_age_days = 90"

definition min_amount :: rat where
  "min_amount = 1 / 100"

definition max_amount :: rat where
  "max_amount = 100000"

definition require_po_above :: rat where
  "require_po_above = 1000"

definition required_fields :: "rat \<Rightarrow> string list" where
  \<comment> \<open>The field set \<open>_check_required_fields\<close> picks: international, standard or basic.\<close>
  "required_fields amount =
     (if 10000 < amount
      then [''invoice_number'', ''vendor'', ''date'', ''total_amount'', ''currency'', ''tax_amount'']
      else if 1000 < amount
      then [''invoice_number'', ''vendor'', ''date'', ''total_amount'', ''currency'']
      else [''invoice_number'', ''vendor'', ''date'', ''total_amount''])"

definition field_missing :: "extraction \<Rightarrow> string \<Rightarrow> bool" where
  \<comment> \<open>\<open>not value or (isinstance(value, (int, float)) and value <= 0)\<close> for
      \<open>value = data.get(field)\<close>.\<close>
  "field_missing data field =
     (if field = ''invoice_number'' then py_not (invoice_number data)
      else if field = ''vendor'' then py_not (vendor data)
      else if field = ''date'' then py_not (date data)
      else if field = ''total_amount'' then total_amount data = 0 \<or> total_amount data \<le> 0
      else if field = ''currency'' then currency data = []
      else if field = ''tax_amount''
      then (case tax_amount data of None \<Rightarrow> True | Some tax \<Rightarrow> tax = 0 \<or> tax \<le> 0)
      else True)"

definition check_required_fields :: "extraction \<Rightarrow> string list" where
  "check_required_fields data =
     filter (field_missing data) (required_fields (total_amount data))"

definition check_vendor_approval :: "string option \<Rightarrow> vendor_result" where
  "check_vendor_approval vendor' =
     (case vendor' of
        None \<Rightarrow> \<lparr>approved = False, vendor_message = No_vendor_name_provided,
                  match_type = None, vendor_warning = None\<rparr>
      | Some v \<Rightarrow>
          if v = []
          then \<lparr>approved = False, vendor_message = No_vendor_name_provided,
                 match_type = None, vendor_warning = None\<rparr>
          else (let vendor_lower = strip (lower v)
                in if list_ex (\<lambda>a. strip v = a) approved_vendors
                   then \<lparr>approved = True, vendor_message = Vendor_is_approved v,
                          match_type = Some ''exact'', vendor_warning = None\<rparr>
                   else (case find (\<lambda>a. py_in (lower a) vendor_lower \<or> py_in vendor_lower (lower a))
                                approved_vendors of
                           Some a \<Rightarrow>
                             \<lparr>approved = True, vendor_message = Vendor_matched v a,
                               match_type = Some ''fuzzy'',
                               vendor_warning = Some (Vendor_is_similar v a)\<rparr>
                         | None \<Rightarrow>
                             \<lparr>approved = False, vendor_message = Vendor_not_in_approved_list v,
                               match_type = None, vendor_warning = None\<rparr>)))"

definition check_spending_limit :: "rat \<Rightarrow> approval_result" where
  "check_spending_limit amount =
     (if amount \<le> 5000
      then \<lparr>level = ''auto_approve'', approver = ''System'',
             approval_message = Within_auto_approval_limit\<rparr>
      else if amount \<le> 10000
      then \<lparr>level = ''requires_manager'', approver = ''Manager'',
             approval_message = Requires_manager_approval amount\<rparr>
      else if amount \<le> 25000
      then \<lparr>level = ''requires_director'', approver = ''Director'',
             approval_message = Requires_director_approval amount\<rparr>
      else if amount \<le> 50000
      then \<lparr>level = ''requires_cfo'', approver = ''CFO'',
             approval_message = Requires_CFO_approval amount\<rparr>
      else \<lparr>level = ''requires_board'', approver = ''Board of Directors'',
             approval_message = Requires_board_approval amount\<rparr>)"

definition validate_amount :: "rat \<Rightarrow> bool \<times> policy_message" where
  "validate_amount amount =
     (if amount < min_amount then (False, Amount_below_minimum amount)
      else if max_amount < amount then (False, Amount_exceeds_maximum amount)
      else (True, Amount_within_range))"

definition check_po_requirement :: "rat \<Rightarrow> string option \<Rightarrow> bool \<times> policy_message" where
  "check_po_requirement amount po_number' =
     (if require_po_above \<le> amount \<and> py_not po_number'
      then (False, PO_number_required amount)
      else (True, PO_requirements_met))"

definition validate_invoice_format :: "string option \<Rightarrow> bool \<times> policy_message" where
  "validate_invoice_format invoice_number' =
     (case invoice_number' of
        None \<Rightarrow> (False, Invoice_number_missing)
      | Some n \<Rightarrow>
          if n = [] then (False, Invoice_number_missing)
          else if length n < 3 then (False, Invoice_number_too_short n)
          else if \<not> match_format n then (True, Invoice_number_unusual_characters n)
          else (True, Invoice_number_format_valid))"

definition date_formats :: "string list" where
  "date_formats = [''%Y-%m-%d'', ''%m/%d/%Y'', ''%d/%m/%Y'', ''%Y/%m/%d'']"

fun first_parse :: "(string \<Rightarrow> string \<Rightarrow> rat option) \<Rightarrow> string \<Rightarrow> string list \<Rightarrow> rat option" where
  \<comment> \<open>The loop over the formats: the first one that \<open>strptime\<close> accepts.\<close>
  "first_parse strptime d [] = None"
| "first_parse strptime d (fmt # fmts) =
     (case strptime d fmt of Some t \<Rightarrow> Some t | None \<Rightarrow> first_parse strptime d fmts)"

definition validate_invoice_date ::
  "(string \<Rightarrow> string \<Rightarrow> rat option) \<Rightarrow> rat \<Rightarrow> string option \<Rightarrow> date_result" where
  \<comment> \<open>\<open>strptime d fmt\<close> is the instant \<open>datetime.strptime\<close> returns, in seconds, or \<open>None\<close>
      when it raises; \<open>today\<close> is \<open>datetime.now()\<close>. \<open>timedelta.days\<close> rounds down.\<close>
  "validate_invoice_date strptime today date' =
     (case date' of
        None \<Rightarrow> \<lparr>date_valid = False, date_message = Some Invoice_date_missing, date_warning = None\<rparr>
      | Some d \<Rightarrow>
          if d = []
          then \<lparr>date_valid = False, date_message = Some Invoice_date_missing, date_warning = None\<rparr>
          else (case first_parse strptime d date_formats of
                  None \<Rightarrow> \<lparr>date_valid = True, date_message = None,
                            date_warning = Some (Date_format_not_validated d)\<rparr>
                | Some invoice_date \<Rightarrow>
                    (let age_days = \<lfloor>(today - invoice_date) / 86400\<rfloor>
                     in if max_invoice_age_days < age_days
                        then \<lparr>date_valid = False,
                               date_message = Some (Invoice_date_too_old d age_days),
                               date_warning = None\<rparr>
                        else if age_days < - 1
                        then \<lparr>date_valid = False,
                               date_message = Some (Invoice_date_in_future d),
                               date_warning = None\<rparr>
                        else if 30 < age_days
                        then \<lparr>date_valid = True, date_message = None,
                               date_warning = Some (Invoice_getting_old age_days)\<rparr>
                        else \<lparr>date_valid = True,
                               date_message = Some (Invoice_date_valid age_days),
                               date_warning = None\<rparr>)))"

definition check_compliance ::
  "(string \<Rightarrow> string \<Rightarrow> rat option) \<Rightarrow> rat \<Rightarrow> extraction \<Rightarrow> policy_results" where
  \<comment> \<open>Every result of \<open>validate_invoice_date\<close> that is not valid carries a message, so
      \<open>date_check['message']\<close> is always there when it is read.\<close>
  "check_compliance strptime today extraction_data =
     (let vendor = vendor extraction_data;
          amount = total_amount extraction_data;
          invoice_number = invoice_number extraction_data;
          date = date extraction_data;
          po_number = po_number extraction_data;
          currency = currency extraction_data;
          missing_fields = check_required_fields extraction_data;
          violations1 = (if missing_fields \<noteq> [] then [Missing_required_fields missing_fields] else []);
          vendor_check = check_vendor_approval vendor;
          violations2 = (if \<not> approved vendor_check
                         then violations1 @ [vendor_message vendor_check] else violations1);
          warnings2 = (if \<not> approved vendor_check then []
                       else case vendor_warning vendor_check of Some w \<Rightarrow> [w] | None \<Rightarrow> []);
          approval_check = check_spending_limit amount;
          warnings3 = (if level approval_check = ''auto_approve'' then warnings2
                       else warnings2 @ [Amount_requires_approval amount (approver approval_check)]);
          amount_check = validate_amount amount;
          violations4 = (if \<not> fst amount_check
                         then violations2 @ [snd amount_check] else violations2);
          po_check = check_po_requirement amount po_number;
          violations5 = (if \<not> fst po_check then violations4 @ [snd po_check] else violations4);
          invoice_check = validate_invoice_format invoice_number;
          warnings6 = (if \<not> fst invoice_check then warnings3 @ [snd invoice_check] else warnings3);
          date_check = validate_invoice_date strptime today date;
          violations7 = (if \<not> date_valid date_check
                         then (case date_message date_check of Some m \<Rightarrow> violations5 @ [m]
                               | None \<Rightarrow> violations5)
                         else violations5);
          warnings7 = (if \<not> date_valid date_check then warnings6
                       else case date_warning date_check of Some w \<Rightarrow> warnings6 @ [w]
                            | None \<Rightarrow> warnings6);
          warnings8 = (if currency \<notin> set [''USD'', ''EUR'', ''GBP'', ''CAD'', ''AUD'', ''JPY'', ''INR'']
                       then warnings7 @ [Unusual_currency currency] else warnings7);
          compliant = (length violations7 = 0)
      in \<lparr>compliant = compliant,
          violations = violations7,
          warnings = warnings8,
          approval_level = level approval_check,
          approver_required = approver approval_check,
          policy_checks_performed = 8,
          vendor_check = vendor_check,
          approval_check = approval_check,
          amount_check = amount_check,
          po_check = po_check,
          date_check = date_check\<rparr>)"

section \<open>Decision agent\<close>

datatype decision_reason =
    All_checks_passed
  | High_fraud_risk_detected rat
  | Policy_violations "policy_message list"
  | Medium_fraud_risk rat
  | Amount_requires_approver rat string
  | Multiple_policy_warnings nat
  | Low_extraction_confidence rat
  | Amount_requires_director rat
  | Approved_pending_manager rat
  | Approved_with_minor_fraud_flags "string option"
  | All_checks_passed_for "string option" rat

datatype recommendation_part =
    Recommended_for_approval
  | Recommended_to_hold
  | Recommended_to_reject
  | Fraud_concerns "fraud_flag list"
  | Policy_issues "policy_message list"
  | Warnings_flagged nat

record decision_summary =
  fraud_risk :: string
  policy_status :: string
  approval_required :: string
  summary_amount :: rat
  summary_vendor :: "string option"

record decision_results =
  decision :: string
  reason :: decision_reason
  decision_confidence :: rat
  recommendation :: "recommendation_part list"
  summary :: decision_summary

definition build_recommendation ::
  "string \<Rightarrow> fraud_results \<Rightarrow> policy_results \<Rightarrow> recommendation_part list" where
  "build_recommendation decision' fraud policy =
     [if decision' = ''APPROVE'' then Recommended_for_approval
      else if decision' = ''HOLD'' then Recommended_to_hold
      else Recommended_to_reject] @
     (if is_suspicious fraud then [Fraud_concerns (take 2 (flags fraud))] else []) @
     (if \<not> compliant policy then [Policy_issues (take 2 (violations policy))] else []) @
     (if warnings policy \<noteq> [] then [Warnings_flagged (length (warnings policy))] else [])"

definition decide_rule ::
  "extraction \<Rightarrow> fraud_results \<Rightarrow> policy_results \<Rightarrow> string \<times> decision_reason \<times> rat" where
  \<comment> \<open>The if/elif ladder of \<open>decide\<close>: decision, reason and confidence score.\<close>
  "decide_rule extraction_data fraud_results policy_results =
     (let fraud_risk = risk_score fraud_results;
          fraud_level = risk_level fraud_results;
          is_suspicious = is_suspicious fraud_results;
          policy_violations = violations policy_results;
          policy_warnings = warnings policy_results;
          approval_level = approval_level policy_results;
          amount = total_amount extraction_data;
          vendor = vendor extraction_data;
          confidence = confidence extraction_data
      in if fraud_level = ''HIGH'' \<or> 7 / 10 \<le> fraud_risk
         then (''REJECT'', High_fraud_risk_detected fraud_risk, 95 / 100)
         else if 0 < length policy_violations
         then (''REJECT'', Policy_violations (take 2 policy_violations), 90 / 100)
         else if fraud_level = ''MEDIUM'' \<or> 4 / 10 \<le> fraud_risk
         then (''HOLD'', Medium_fraud_risk fraud_risk, 80 / 100)
         else if approval_level \<in> set [''requires_cfo'', ''requires_board'']
         then (''HOLD'', Amount_requires_approver amount (approver_required policy_results), 85 / 100)
         else if 2 < length policy_warnings
         then (''HOLD'', Multiple_policy_warnings (length policy_warnings), 75 / 100)
         else if confidence < 75 / 100
         then (''HOLD'', Low_extraction_confidence confidence, 70 / 100)
         else if approval_level = ''requires_director''
         then (''HOLD'', Amount_requires_director amount, 85 / 100)
         else if approval_level = ''requires_manager''
         then (''APPROVE'', Approved_pending_manager amount, 80 / 100)
         else if fraud_level = ''LOW'' \<or> (is_suspicious \<and> fraud_risk < 3 / 10)
         then (''APPROVE'', Approved_with_minor_fraud_flags vendor, 75 / 100)
         else (''APPROVE'', All_checks_passed_for vendor amount, 95 / 100))"

definition decide :: "extraction \<Rightarrow> fraud_results \<Rightarrow> policy_results \<Rightarrow> decision_results" where
  "decide extraction_data fraud_results policy_results =
     (let (decision', reason', confidence_score) =
            decide_rule extraction_data fraud_results policy_results
      in \<lparr>decision = decision',
          reason = reason',
          decision_confidence = confidence_score,
          recommendation = build_recommendation decision' fraud_results policy_results,
          summary = \<lparr>fraud_risk = risk_level fraud_results,
                      policy_status = (if compliant policy_results then ''Compliant''
                                       else ''Non-compliant''),
                      approval_required = approver_required policy_results,
                      summary_amount = total_amount extraction_data,
                      summary_vendor = vendor extraction_data\<rparr>\<rparr>)"

section \<open>NLP agent\<close>

record nlp_results = extraction +
  line_items :: "string list"
  status :: string
  error :: "string option"

record field_extractors =
  extract_invoice_number :: "string \<Rightarrow> string option"
  extract_date :: "string \<Rightarrow> string option"
  extract_vendor :: "string \<Rightarrow> string option"
  extract_total :: "string \<Rightarrow> rat"
  detect_currency :: "string \<Rightarrow> string"
  extract_po_number :: "string \<Rightarrow> string option"
  extract_tax :: "string \<Rightarrow> rat option"


definition extract_line_items :: "string \<Rightarrow> string list" where
  "extract_line_items raw_text = []"

definition calculate_confidence ::
  "string option \<Rightarrow> string option \<Rightarrow> string option \<Rightarrow> rat \<Rightarrow> rat" where
  "calculate_confidence inv_num date' vendor' amount =
     py_round2
       ((if \<not> py_not inv_num then 25 / 100 else 0) +
        (if \<not> py_not date' then 25 / 100 else 0) +
        (if \<not> py_not vendor' then 25 / 100 else 0) +
        (if amount \<noteq> 0 \<and> 0 < amount then 25 / 100 else 0))"

definition empty_result :: "string \<Rightarrow> nlp_results" where
  "empty_result reason' =
     \<lparr>invoice_number = None, date = None, vendor = None, total_amount = 0,
      currency = ''USD'', po_number = None, tax_amount = None, confidence = 0,
      line_items = [], status = ''error'', error = Some reason'\<rparr>"

text \<open>
  The pattern and entity matchers of the agent (built on \<open>re\<close> and spaCy) are taken as
  the functions of \<open>lib\<close>; \<open>extract\<close> itself is the guard and the assembly of the
  result.
\<close>

definition "extract" :: "field_extractors \<Rightarrow> string \<Rightarrow> nlp_results" where
  "extract lib raw_text =
     (if raw_text = [] \<or> length (strip raw_text) = 0 then empty_result ''No text to process''
      else (let invoice_number = extract_invoice_number lib raw_text;
                date = extract_date lib raw_text;
                vendor = extract_vendor lib raw_text;
                total_amount = extract_total lib raw_text;
                currency = detect_currency lib raw_text;
                po_number = extract_po_number lib raw_text;
                tax_amount = extract_tax lib raw_text;
                line_items = extract_line_items raw_text;
                confidence = calculate_confidence invoice_number date vendor total_amount
            in \<lparr>invoice_number = invoice_number, date = date, vendor = vendor,
                 total_amount = total_amount, currency = currency, po_number = po_number,
                 tax_amount = tax_amount, confidence = confidence,
                 line_items = line_items, status = ''success'', error = None\<rparr>))"

section \<open>Test data\<close>

definition scenario_a :: extraction where
  \<comment> \<open>The first invoice of the pipeline test: a valid invoice of an approved vendor.\<close>
  "scenario_a =
     \<lparr>invoice_number = Some ''INV-2025-001'', date = Some ''2025-01-15'',
      vendor = Some ''Acme Corporation'', total_amount = 234567 / 100, currency = ''USD'',
      po_number = Some ''PO-12345'', tax_amount = Some (23456 / 100), confidence = 95 / 100\<rparr>"

definition filler :: processed_invoice where
  \<comment> \<open>A ledger entry of another vendor, to fill a ledger.\<close>
  "filler =
     \<lparr>inv_invoice_number = Some ''INV-2024-500'', inv_vendor = Some ''Google'',
      inv_amount = 120, inv_date = Some ''2024-12-01'', inv_timestamp = 0\<rparr>"



definition shared_number_ledger :: "processed_invoice list" where
  \<comment> \<open>Two vendors have used the same invoice number; the second entry is the first
      invoice of the pipeline test.\<close>
  "shared_number_ledger =
     [\<lparr>inv_invoice_number = Some ''INV-2025-001'', inv_vendor = Some ''Tech Solutions Inc'',
       inv_amount = 890, inv_date = Some ''2025-01-10'', inv_timestamp = 0\<rparr>,
      \<lparr>inv_invoice_number = Some ''INV-2025-001'', inv_vendor = Some ''Acme Corporation'',
       inv_amount = 234567 / 100, inv_date = Some ''2025-01-15'', inv_timestamp = 60\<rparr>]"

definition underscore_invoice :: extraction where
  \<comment> \<open>The invoice of the test with underscores in its number.\<close>
  "underscore_invoice = scenario_a\<lparr>invoice_number := Some ''INV_2025_001''\<rparr>"

definition large_round_invoice :: extraction where
  \<comment> \<open>The invoice of the test with a large round total and a tax of one percent.\<close>
  "large_round_invoice = scenario_a\<lparr>total_amount := 50000, tax_amount := Some 500\<rparr>"

section \<open>The accumulator of the fraud checks\<close>

lemma fst_fire: "fst (fire c f w acc) = fst acc @ (if c then [f] else [])"
  by (simp add: fire_def)

lemma snd_fire: "snd (fire c f w acc) = snd acc + (if c then w else 0)"
  by (simp add: fire_def)

lemma snd_detect_checks:
  "snd (detect_checks nc L e) =
     (if fst (check_duplicate L (invoice_number e) (vendor e)) then 5 / 10 else 0)
   + (if very_high_amount \<le> total_amount e then 3 / 10
      else if high_amount \<le> total_amount e then 2 / 10 else 0)
   + (if is_suspicious_round_amount (total_amount e) then 15 / 100 else 0)
   + (if fst (check_vendor_frequency nc L (vendor e)) then 25 / 100 else 0)
   + (if check_missing_fields e \<noteq> [] then 2 / 10 else 0)
   + (if fst (check_invoice_pattern (invoice_number e)) then 1 / 10 else 0)
   + (if \<not> check_amount_consistency e then 1 / 10 else 0)"
  by (cases "very_high_amount \<le> total_amount e")
     (simp_all add: detect_checks_def Let_def snd_fire split del: if_split cong: if_cong)

lemma fst_detect_checks:
  "fst (detect_checks nc L e) =
     (if fst (check_duplicate L (invoice_number e) (vendor e))
      then [Duplicate_invoice (snd (check_duplicate L (invoice_number e) (vendor e)))] else [])
   @ (if very_high_amount \<le> total_amount e then [Very_high_amount (currency e) (total_amount e)]
      else if high_amount \<le> total_amount e then [High_amount (currency e) (total_amount e)] else [])
   @ (if is_suspicious_round_amount (total_amount e)
      then [Suspicious_round_amount (currency e) (total_amount e)] else [])
   @ (if fst (check_vendor_frequency nc L (vendor e))
      then [Frequency (snd (check_vendor_frequency nc L (vendor e)))] else [])
   @ (if check_missing_fields e \<noteq> [] then [Missing_critical_fields (check_missing_fields e)] else [])
   @ (if fst (check_invoice_pattern (invoice_number e))
      then [Pattern (snd (check_invoice_pattern (invoice_number e)))] else [])
   @ (if \<not> check_amount_consistency e then [Tax_calculation_inconsistent] else [])"
  by (cases "very_high_amount \<le> total_amount e")
     (simp_all add: detect_checks_def Let_def fst_fire split del: if_split cong: if_cong)

lemma py_round2_hundredth: "x * 100 \<in> \<int> \<Longrightarrow> py_round2 x = x"
proof -
  assume "x * 100 \<in> \<int>"
  then obtain k :: int where k: "x * 100 = of_int k" by (auto elim: Ints_cases)
  then show ?thesis by (simp add: py_round2_def Let_def)
qed

lemma hundredth_add: "x * 100 \<in> \<int> \<Longrightarrow> y * 100 \<in> \<int> \<Longrightarrow> (x + y) * 100 \<in> \<int>" for x y :: rat
  by (simp add: distrib_right)

lemma hundredth_if: "x * 100 \<in> \<int> \<Longrightarrow> y * 100 \<in> \<int> \<Longrightarrow> (if c then x else y) * 100 \<in> \<int>" for x y :: rat
  by simp

lemma snd_detect_checks_hundredth: "snd (detect_checks nc L e) * 100 \<in> \<int>"
  unfolding snd_detect_checks by (intro hundredth_add hundredth_if) simp_all

lemma snd_detect_checks_nonneg: "0 \<le> snd (detect_checks nc L e)"
  unfolding snd_detect_checks by (intro add_nonneg_nonneg) simp_all

lemma capped_hundredth: "min (snd (detect_checks nc L e)) 1 * 100 \<in> \<int>"
  using snd_detect_checks_hundredth [of nc L e] by (simp add: min_def)

lemma detect_risk_score:
  "risk_score (fst (detect nc ns L e)) = min (snd (detect_checks nc L e)) 1"
  by (simp add: detect_def Let_def py_round2_hundredth [OF capped_hundredth])

lemma detect_risk_level:
  "risk_level (fst (detect nc ns L e)) = get_risk_level (min (snd (detect_checks nc L e)) 1)"
  by (simp add: detect_def Let_def)

lemma detect_is_suspicious:
  "is_suspicious (fst (detect nc ns L e)) = (3 / 10 \<le> min (snd (detect_checks nc L e)) 1)"
  by (simp add: detect_def Let_def min_def)

lemma detect_flags:
  "flags (fst (detect nc ns L e)) =
     (if fst (detect_checks nc L e) \<noteq> [] then fst (detect_checks nc L e)
      else [No_fraud_indicators_detected])"
  by (simp add: detect_def Let_def)

lemma detect_ledger:
  "snd (detect nc ns L e) =
     store_invoice ns L (invoice_number e) (vendor e) (total_amount e) (date e)"
  by (simp add: detect_def Let_def)

section \<open>Risk level and suspicion (C5, C10)\<close>

text \<open>
  Claim C5. The risk level is the step function of the score: HIGH from 0.7, MEDIUM from
  0.4, LOW from 0.2, MINIMAL below, each lower bound included. Every assessment that
  \<open>detect\<close> returns has a score between 0 and 1, carries the level of that score, and is
  suspicious exactly when the score is at least 0.3. (The level and the flag are computed
  from the score before \<open>round(risk_score, 2)\<close>; the score is a sum of hundredths, so the
  rounding changes nothing.)
\<close>

theorem risk_level_is_step_function:
  "(7 / 10 \<le> s \<longrightarrow> get_risk_level s = ''HIGH'') \<and>
   (4 / 10 \<le> s \<and> s < 7 / 10 \<longrightarrow> get_risk_level s = ''MEDIUM'') \<and>
   (2 / 10 \<le> s \<and> s < 4 / 10 \<longrightarrow> get_risk_level s = ''LOW'') \<and>
   (s < 2 / 10 \<longrightarrow> get_risk_level s = ''MINIMAL'') \<and>
   get_risk_level (2 / 10) = ''LOW'' \<and>
   get_risk_level (4 / 10) = ''MEDIUM'' \<and>
   get_risk_level (7 / 10) = ''HIGH'' \<and>
   0 \<le> risk_score (fst (detect nc ns L e)) \<and>
   risk_score (fst (detect nc ns L e)) \<le> 1 \<and>
   risk_level (fst (detect nc ns L e)) = get_risk_level (risk_score (fst (detect nc ns L e))) \<and>
   is_suspicious (fst (detect nc ns L e)) = (3 / 10 \<le> risk_score (fst (detect nc ns L e)))"
proof -
  have steps: "(7 / 10 \<le> s \<longrightarrow> get_risk_level s = ''HIGH'') \<and>
      (4 / 10 \<le> s \<and> s < 7 / 10 \<longrightarrow> get_risk_level s = ''MEDIUM'') \<and>
      (2 / 10 \<le> s \<and> s < 4 / 10 \<longrightarrow> get_risk_level s = ''LOW'') \<and>
      (s < 2 / 10 \<longrightarrow> get_risk_level s = ''MINIMAL'')"
    by (simp add: get_risk_level_def)
  have bounds: "get_risk_level (2 / 10) = ''LOW'' \<and> get_risk_level (4 / 10) = ''MEDIUM'' \<and>
      get_risk_level (7 / 10) = ''HIGH''"
    by (simp add: get_risk_level_def)
  have range: "0 \<le> risk_score (fst (detect nc ns L e)) \<and> risk_score (fst (detect nc ns L e)) \<le> 1"
    using snd_detect_checks_nonneg [of nc L e] by (simp add: detect_risk_score)
  have lev: "risk_level (fst (detect nc ns L e)) = get_risk_level (risk_score (fst (detect nc ns L e)))"
    by (simp only: detect_risk_score detect_risk_level)
  have sus: "is_suspicious (fst (detect nc ns L e)) = (3 / 10 \<le> risk_score (fst (detect nc ns L e)))"
    by (simp only: detect_risk_score detect_is_suspicious)
  from steps bounds range lev sus show ?thesis by blast
qed

theorem risk_level_is_step_function_witness:
  "get_risk_level (1 / 2) = ''MEDIUM'' \<and> get_risk_level (3 / 10) = ''LOW'' \<and>
   get_risk_level (1 / 10) = ''MINIMAL'' \<and> get_risk_level 1 = ''HIGH'' \<and>
   risk_score (fst (detect 0 0 [] scenario_a)) \<le> 1 \<and>
   is_suspicious (fst (detect 0 0 [] scenario_a))
     = (3 / 10 \<le> risk_score (fst (detect 0 0 [] scenario_a)))"
  using risk_level_is_step_function [of "1 / 2" 0 0 "[]" scenario_a]
    risk_level_is_step_function [of "3 / 10" 0 0 "[]" scenario_a]
    risk_level_is_step_function [of "1 / 10" 0 0 "[]" scenario_a]
    risk_level_is_step_function [of 1 0 0 "[]" scenario_a]
  by simp

text \<open>
  Claim C10. No assessment that \<open>detect\<close> returns is suspicious with a score below 0.3;
  so when \<open>decide\<close> answers with the reason of rule 9 (approved with minor fraud flags) on
  such an assessment, the risk level is LOW.
\<close>

theorem suspicious_below_threshold_unreachable:
  "\<not> (is_suspicious (fst (detect nc ns L e)) \<and> risk_score (fst (detect nc ns L e)) < 3 / 10) \<and>
   (reason (decide x (fst (detect nc ns L e)) p) = Approved_with_minor_fraud_flags (vendor x)
      \<longrightarrow> risk_level (fst (detect nc ns L e)) = ''LOW'')"
proof -
  let ?r = "fst (detect nc ns L e)"
  have sus: "is_suspicious ?r = (3 / 10 \<le> risk_score ?r)"
    by (simp only: detect_risk_score detect_is_suspicious)
  then have first: "\<not> (is_suspicious ?r \<and> risk_score ?r < 3 / 10)" by auto
  have second: "risk_level ?r = ''LOW''"
    if "reason (decide x ?r p) = Approved_with_minor_fraud_flags (vendor x)"
    using that first by (auto simp add: decide_def decide_rule_def Let_def split: if_splits)
  from first second show ?thesis by blast
qed

theorem suspicious_below_threshold_unreachable_witness:
  "\<not> (is_suspicious (fst (detect 0 0 [] scenario_a))
        \<and> risk_score (fst (detect 0 0 [] scenario_a)) < 3 / 10)"
  using suspicious_below_threshold_unreachable [of 0 0 "[]" scenario_a scenario_a] by blast

section \<open>Precedence of the fraud rejection (C2)\<close>

text \<open>
  Claim C2. When the fraud assessment has risk level HIGH or a score of at least 0.7,
  \<open>decide\<close> answers REJECT with confidence 0.95, and the decision and the confidence are
  the same for any two policy assessments.
\<close>

theorem high_fraud_always_rejects:
  assumes "risk_level f = ''HIGH'' \<or> 7 / 10 \<le> risk_score f"
  shows "decision (decide e f p1) = ''REJECT'' \<and> decision_confidence (decide e f p1) = 95 / 100 \<and>
         decision (decide e f p2) = decision (decide e f p1) \<and>
         decision_confidence (decide e f p2) = decision_confidence (decide e f p1)"
  using assms by (simp add: decide_def decide_rule_def Let_def)

theorem high_fraud_always_rejects_witness:
  "decision (decide scenario_a
      \<lparr>is_suspicious = True, risk_score = 8 / 10, risk_level = ''HIGH'', flags = [],
       checks_performed = 7, duplicate_check = (False, No_duplicate_found),
       frequency_check = (False, Normal_frequency), pattern_check = (False, Normal_pattern)\<rparr>
      (check_compliance (\<lambda>d fmt. None) 0 scenario_a)) = ''REJECT''"
  using high_fraud_always_rejects [of
      "\<lparr>is_suspicious = True, risk_score = 8 / 10, risk_level = ''HIGH'', flags = [],
       checks_performed = 7, duplicate_check = (False, No_duplicate_found),
       frequency_check = (False, Normal_frequency), pattern_check = (False, Normal_pattern)\<rparr>"
      scenario_a "check_compliance (\<lambda>d fmt. None) 0 scenario_a"]
  by simp

section \<open>The ledger (C8)\<close>

lemma store_invoice_drop:
  "store_invoice ns L n v a d =
     drop (length L + 1 - 100)
       (L @ [\<lparr>inv_invoice_number = n, inv_vendor = v, inv_amount = a, inv_date = d,
               inv_timestamp = ns\<rparr>])"
  by (simp add: store_invoice_def Let_def)

lemma length_store_invoice: "length (store_invoice ns L n v a d) = min 100 (length L + 1)"
  by (simp add: store_invoice_drop)

lemma length_detect_all:
  "length L \<le> 100 \<Longrightarrow> length (detect_all L calls) = min 100 (length L + length calls)"
proof (induction calls arbitrary: L)
  case Nil
  then show ?case by simp
next
  case (Cons c calls)
  obtain nc ns e where c: "c = (nc, ns, e)" by (cases c)
  let ?L = "snd (detect nc ns L e)"
  have len: "length ?L = min 100 (length L + 1)"
    by (simp add: detect_ledger length_store_invoice)
  then have "length ?L \<le> 100" by simp
  from Cons.IH [OF this] len Cons.prems show ?case by (simp add: c)
qed

text \<open>
  Claim C8. Every call of \<open>detect\<close> appends one entry (invoice number, vendor, amount, date
  and the clock reading of the store) to the ledger and keeps the last 100 entries of the
  result, in their order; the ledger of an agent, empty at first, never holds more than
  100 entries.
\<close>

theorem ledger_keeps_last_100:
  "snd (detect nc ns L e) =
     drop (length L + 1 - 100)
       (L @ [\<lparr>inv_invoice_number = invoice_number e, inv_vendor = vendor e,
               inv_amount = total_amount e, inv_date = date e, inv_timestamp = ns\<rparr>]) \<and>
   length (snd (detect nc ns L e)) = min 100 (length L + 1) \<and>
   length (snd (detect nc ns L e)) \<le> 100 \<and>
   length (detect_all [] calls) = min 100 (length calls) \<and>
   length (detect_all [] calls) \<le> 100"
proof -
  have one: "length (snd (detect nc ns L e)) = min 100 (length L + 1)"
    by (simp only: detect_ledger length_store_invoice)
  have many: "length (detect_all [] calls) = min 100 (length calls)"
    using length_detect_all [of "[]" calls] by simp
  show ?thesis
    unfolding one many by (simp add: detect_ledger store_invoice_drop)
qed

theorem ledger_keeps_last_100_witness:
  "length (snd (detect 0 0 (replicate 100 filler) scenario_a)) = 100 \<and>
   last (snd (detect 0 7 (replicate 100 filler) scenario_a)) =
     \<lparr>inv_invoice_number = Some ''INV-2025-001'', inv_vendor = Some ''Acme Corporation'',
      inv_amount = 234567 / 100, inv_date = Some ''2025-01-15'', inv_timestamp = 7\<rparr>"
  using ledger_keeps_last_100 [of 0 7 "replicate 100 filler" scenario_a "[]"]
    ledger_keeps_last_100 [of 0 0 "replicate 100 filler" scenario_a "[]"]
  by (simp add: scenario_a_def)

section \<open>The duplicate check (C1, C9)\<close>

lemma check_duplicate_absent: "py_not n \<Longrightarrow> check_duplicate L n v = (False, No_invoice_number_to_check)"
  by (simp add: check_duplicate_def py_not_def split: option.splits)

lemma check_invoice_pattern_absent: "py_not n \<Longrightarrow> check_invoice_pattern n = (False, No_invoice_number)"
  by (simp add: check_invoice_pattern_def py_not_def split: option.splits)

lemma flags_member:
  "f \<noteq> No_fraud_indicators_detected \<Longrightarrow>
   f \<in> set (flags (fst (detect nc ns L e))) \<longleftrightarrow> f \<in> set (fst (detect_checks nc L e))"
  by (simp add: detect_flags)

text \<open>
  Claim C9. When the invoice number is absent (\<open>None\<close> or empty), the duplicate check does
  not fire whatever the ledger holds: no duplicate flag, nothing added to the score. The
  pattern check does not fire either. The absence shows in the missing-fields check alone,
  which lists \<open>invoice_number\<close>, appends its flag and adds 0.2.
\<close>

theorem absent_invoice_number_not_duplicate:
  assumes "py_not (invoice_number e)"
  shows "\<not> fst (duplicate_check (fst (detect nc ns L e))) \<and>
         (\<forall>m. Duplicate_invoice m \<notin> set (flags (fst (detect nc ns L e)))) \<and>
         \<not> fst (pattern_check (fst (detect nc ns L e))) \<and>
         (\<forall>m. Pattern m \<notin> set (flags (fst (detect nc ns L e)))) \<and>
         ''invoice_number'' \<in> set (check_missing_fields e) \<and>
         Missing_critical_fields (check_missing_fields e) \<in> set (flags (fst (detect nc ns L e))) \<and>
         snd (detect_checks nc L e) =
             (if very_high_amount \<le> total_amount e then 3 / 10
              else if high_amount \<le> total_amount e then 2 / 10 else 0)
           + (if is_suspicious_round_amount (total_amount e) then 15 / 100 else 0)
           + (if fst (check_vendor_frequency nc L (vendor e)) then 25 / 100 else 0)
           + 2 / 10
           + (if \<not> check_amount_consistency e then 1 / 10 else 0) \<and>
         risk_score (fst (detect nc ns L e)) = min (snd (detect_checks nc L e)) 1"
proof -
  let ?r = "fst (detect nc ns L e)"
  note dup = check_duplicate_absent [OF assms] and pat = check_invoice_pattern_absent [OF assms]
  have missing: "''invoice_number'' \<in> set (check_missing_fields e)"
    using assms by (simp add: check_missing_fields_def)
  then have nonempty: "check_missing_fields e \<noteq> []" by auto
  have d1: "\<not> fst (duplicate_check ?r)" by (simp add: detect_def Let_def dup)
  have p1: "\<not> fst (pattern_check ?r)" by (simp add: detect_def Let_def pat)
  have d2: "Duplicate_invoice m \<notin> set (flags ?r)" for m
    by (simp add: flags_member fst_detect_checks dup pat)
  have p2: "Pattern m \<notin> set (flags ?r)" for m
    by (simp add: flags_member fst_detect_checks dup pat)
  have m2: "Missing_critical_fields (check_missing_fields e) \<in> set (flags ?r)"
    using nonempty by (simp add: flags_member fst_detect_checks)
  have sc: "snd (detect_checks nc L e) =
             (if very_high_amount \<le> total_amount e then 3 / 10
              else if high_amount \<le> total_amount e then 2 / 10 else 0)
           + (if is_suspicious_round_amount (total_amount e) then 15 / 100 else 0)
           + (if fst (check_vendor_frequency nc L (vendor e)) then 25 / 100 else 0)
           + 2 / 10
           + (if \<not> check_amount_consistency e then 1 / 10 else 0)"
    using nonempty by (simp add: snd_detect_checks dup pat)
  from d1 d2 p1 p2 missing m2 sc detect_risk_score [of nc ns L e] show ?thesis by blast
qed

theorem absent_invoice_number_not_duplicate_witness:
  "\<not> fst (duplicate_check (fst (detect 0 0 shared_number_ledger (scenario_a\<lparr>invoice_number := None\<rparr>)))) \<and>
   ''invoice_number'' \<in> set (check_missing_fields (scenario_a\<lparr>invoice_number := None\<rparr>))"
  using absent_invoice_number_not_duplicate
    [of "scenario_a\<lparr>invoice_number := None\<rparr>" 0 0 shared_number_ledger]
  by (simp add: py_not_def)

lemma floor_rat_numeral_div: "\<lfloor>(numeral a :: rat) / numeral b\<rfloor> = numeral a div numeral b"
  using floor_divide_of_int_eq [of "numeral a" "numeral b", where ?'a = rat] by simp

lemma ceiling_rat_numeral_div: "\<lceil>(numeral a :: rat) / numeral b\<rceil> = - (- numeral a div numeral b)"
  using ceiling_divide_eq_div [of "numeral a" "numeral b", where ?'a = rat] by simp

lemmas float_defs = floor_rat_numeral_div ceiling_rat_numeral_div float_div_def double_of_def
  binade_def round_half_even_def Let_def compute_bitlen power_int_minus

lemma tax_check_at_ten_percent:
  assumes "tax_amount e = Some (23456 / 100)" and "total_amount e = 234567 / 100"
  shows "check_amount_consistency e"
  unfolding check_amount_consistency_def assms by (simp add: float_defs)

lemma tax_check_at_one_percent:
  assumes "tax_amount e = Some 500" and "total_amount e = 50000"
  shows "\<not> check_amount_consistency e"
  unfolding check_amount_consistency_def assms by (simp add: float_defs)



lemmas eval_defs = detect_checks_def detect_def Let_def fire_def check_duplicate_def
  very_high_amount_def high_amount_def is_suspicious_round_amount_def py_mod_def
  round_amount_min_def check_vendor_frequency_def suspicious_frequency_same_hour_def
  suspicious_frequency_same_day_def check_missing_fields_def py_not_def
  check_invoice_pattern_def isdigit_def isdigit_char_def match_all_def
  py_round2_def get_risk_level_def store_invoice_def floor_rat_numeral_div

text \<open>
  Claim C1 fails on the code. \<open>_check_duplicate\<close> returns at the first ledger entry that
  carries the invoice number: when that entry belongs to another vendor the answer is
  "not a duplicate", and a later entry with the same number and the same vendor is never
  reached. Here the ledger holds the invoice of the test behind an entry of another vendor
  with the same number; scoring the invoice again raises no duplicate flag and adds
  nothing to the score.
\<close>

theorem duplicate_missed_behind_other_vendor:
  "inv_invoice_number (shared_number_ledger ! 1) = invoice_number scenario_a \<and>
   inv_vendor (shared_number_ledger ! 1) = vendor scenario_a \<and>
   check_duplicate shared_number_ledger (invoice_number scenario_a) (vendor scenario_a)
     = (False, Exists_for_different_vendor ''INV-2025-001'') \<and>
   flags (fst (detect 3600 3600 shared_number_ledger scenario_a)) = [No_fraud_indicators_detected] \<and>
   risk_score (fst (detect 3600 3600 shared_number_ledger scenario_a)) = 0"
  by (simp add: shared_number_ledger_def scenario_a_def eval_defs tax_check_at_ten_percent)

section \<open>The tax check (C7)\<close>






section \<open>The invoice-number format check (C3)\<close>

lemma vendor_warning_shape:
  "vendor_warning (check_vendor_approval v) = Some w \<Longrightarrow> \<exists>a b. w = Vendor_is_similar a b"
  by (auto simp add: check_vendor_approval_def Let_def split: option.splits if_splits)

lemma vendor_message_shape:
  "vendor_message (check_vendor_approval v) = No_vendor_name_provided
   \<or> (\<exists>a. vendor_message (check_vendor_approval v) = Vendor_is_approved a)
   \<or> (\<exists>a b. vendor_message (check_vendor_approval v) = Vendor_matched a b)
   \<or> (\<exists>a. vendor_message (check_vendor_approval v) = Vendor_not_in_approved_list a)"
  by (auto simp add: check_vendor_approval_def Let_def split: option.splits if_splits)

lemma date_warning_shape:
  "date_warning (validate_invoice_date strptime today d) = Some w \<Longrightarrow>
   (\<exists>a. w = Date_format_not_validated a) \<or> (\<exists>k. w = Invoice_getting_old k)"
  by (auto simp add: validate_invoice_date_def Let_def split: option.splits if_splits)

lemma date_message_shape:
  "date_message (validate_invoice_date strptime today d) = Some w \<Longrightarrow>
   w = Invoice_date_missing \<or> (\<exists>a k. w = Invoice_date_too_old a k)
   \<or> (\<exists>a. w = Invoice_date_in_future a) \<or> (\<exists>k. w = Invoice_date_valid k)"
  by (auto simp add: validate_invoice_date_def Let_def split: option.splits if_splits)

lemma invalid_format_shape:
  "\<not> fst (validate_invoice_format n) \<Longrightarrow>
   snd (validate_invoice_format n) = Invoice_number_missing
   \<or> (\<exists>a. snd (validate_invoice_format n) = Invoice_number_too_short a)"
  by (auto simp add: validate_invoice_format_def split: option.splits if_splits)

lemma warnings_sources:
  assumes "w \<in> set (warnings (check_compliance strptime today e))"
  shows "vendor_warning (check_vendor_approval (vendor e)) = Some w
       \<or> w = Amount_requires_approval (total_amount e) (approver (check_spending_limit (total_amount e)))
       \<or> (\<not> fst (validate_invoice_format (invoice_number e))
           \<and> w = snd (validate_invoice_format (invoice_number e)))
       \<or> date_warning (validate_invoice_date strptime today (date e)) = Some w
       \<or> w = Unusual_currency (currency e)"
  using assms
  by (auto simp add: check_compliance_def Let_def split: if_splits option.splits)

lemma violations_sources:
  assumes "w \<in> set (violations (check_compliance strptime today e))"
  shows "w = Missing_required_fields (check_required_fields e)
       \<or> w = vendor_message (check_vendor_approval (vendor e))
       \<or> w = snd (validate_amount (total_amount e))
       \<or> w = snd (check_po_requirement (total_amount e) (po_number e))
       \<or> date_message (validate_invoice_date strptime today (date e)) = Some w"
  using assms
  by (auto simp add: check_compliance_def Let_def split: if_splits option.splits)

lemma unusual_characters_never_warned:
  "Invoice_number_unusual_characters m \<notin> set (warnings (check_compliance strptime today e))"
proof
  assume "Invoice_number_unusual_characters m \<in> set (warnings (check_compliance strptime today e))"
  from warnings_sources [OF this]
  show False
    using vendor_warning_shape [of "vendor e" "Invoice_number_unusual_characters m"]
      date_warning_shape [of strptime today "date e" "Invoice_number_unusual_characters m"]
      invalid_format_shape [of "invoice_number e"]
    by auto
qed

lemma unusual_characters_never_violation:
  "Invoice_number_unusual_characters m \<notin> set (violations (check_compliance strptime today e))"
proof
  assume "Invoice_number_unusual_characters m \<in> set (violations (check_compliance strptime today e))"
  from violations_sources [OF this]
  show False
    using vendor_message_shape [of "vendor e"]
      date_message_shape [of strptime today "date e" "Invoice_number_unusual_characters m"]
    by (auto simp add: validate_amount_def check_po_requirement_def split: if_splits)
qed

text \<open>
  Claim C3 fails on the code. For an invoice number of at least three characters that the
  pattern \<open>^[A-Z0-9#-]+$\<close> rejects, \<open>_validate_invoice_format\<close> answers
  \<open>valid = True\<close> with the message "contains unusual characters" (its comment says
  "Valid but warning"), and \<open>check_compliance\<close> appends the message of this check only
  when \<open>valid\<close> is false. So the message reaches neither the warnings nor the violations:
  the check adds no warning at all.
\<close>

theorem unusual_characters_not_reported:
  assumes "invoice_number e = Some n" and "3 \<le> length n" and "\<not> match_format n"
  shows "validate_invoice_format (invoice_number e) = (True, Invoice_number_unusual_characters n) \<and>
         (\<forall>m. Invoice_number_unusual_characters m \<notin> set (warnings (check_compliance strptime today e))) \<and>
         (\<forall>m. Invoice_number_unusual_characters m \<notin> set (violations (check_compliance strptime today e)))"
proof -
  from assms have "n \<noteq> []" by auto
  with assms have "validate_invoice_format (invoice_number e) = (True, Invoice_number_unusual_characters n)"
    by (simp add: validate_invoice_format_def)
  with unusual_characters_never_warned unusual_characters_never_violation show ?thesis by blast
qed

theorem unusual_characters_not_reported_witness:
  "validate_invoice_format (invoice_number underscore_invoice)
     = (True, Invoice_number_unusual_characters ''INV_2025_001'') \<and>
   Invoice_number_unusual_characters ''INV_2025_001''
     \<notin> set (warnings (check_compliance (\<lambda>d fmt. Some 0) 0 underscore_invoice))"
  using unusual_characters_not_reported
    [of underscore_invoice "''INV_2025_001''" "\<lambda>d fmt. Some 0" 0]
  by (simp add: underscore_invoice_def scenario_a_def match_format_def format_char_def)

section \<open>The guard of the extractor (C6)\<close>





section \<open>Scoring an invoice twice (C4)\<close>

lemma count_vendor_filter:
  "count_vendor now v L (t, r) =
     (t + length (filter (\<lambda>x. inv_vendor x = Some v \<and> now - inv_timestamp x < 86400) L),
      r + length (filter (\<lambda>x. inv_vendor x = Some v \<and> now - inv_timestamp x < 3600) L))"
  by (induction L arbitrary: t r) (simp_all add: Let_def)

lemma frequency_fires_iff:
  "v \<noteq> [] \<Longrightarrow>
   fst (check_vendor_frequency now L (Some v)) \<longleftrightarrow>
     2 \<le> length (filter (\<lambda>x. inv_vendor x = Some v \<and> now - inv_timestamp x < 3600) L)
     \<or> 3 \<le> length (filter (\<lambda>x. inv_vendor x = Some v \<and> now - inv_timestamp x < 86400) L)"
  by (simp add: check_vendor_frequency_def count_vendor_filter
      suspicious_frequency_same_hour_def suspicious_frequency_same_day_def)

lemma length_filter_mono:
  "(\<And>x. x \<in> set xs \<Longrightarrow> P x \<Longrightarrow> Q x) \<Longrightarrow> length (filter P xs) \<le> length (filter Q xs)"
  by (induction xs) auto

lemma length_filter_drop: "length (filter P xs) \<le> length (filter P (drop k xs)) + k"
proof -
  have "length (filter P xs) = length (filter P (take k xs)) + length (filter P (drop k xs))"
    by (metis append_take_drop_id filter_append length_append)
  moreover have "length (filter P (take k xs)) \<le> k"
    by (rule order_trans [OF length_filter_le]) simp
  ultimately show ?thesis by simp
qed

lemma find_duplicate_fresh:
  "(\<And>x. x \<in> set L \<Longrightarrow> inv_invoice_number x \<noteq> Some n) \<Longrightarrow>
   find_duplicate L n v = (False, No_duplicate_found)"
  by (induction L) auto

lemma find_duplicate_appended:
  "(\<And>x. x \<in> set L \<Longrightarrow> inv_invoice_number x \<noteq> Some n) \<Longrightarrow>
   inv_invoice_number y = Some n \<Longrightarrow> inv_vendor y = v \<Longrightarrow>
   find_duplicate (L @ [y]) n v = (True, Already_processed n v)"
  by (induction L) auto

lemma detect_duplicate_check:
  "duplicate_check (fst (detect nc ns L e)) = check_duplicate L (invoice_number e) (vendor e)"
  by (simp add: detect_def Let_def)

lemma window_count_kept:
  assumes len: "length L \<le> 100"
    and fresh: "nc2 - inv_timestamp y < W"
    and vend: "inv_vendor y = Some v"
    and aged: "\<And>x. x \<in> set L \<Longrightarrow> inv_vendor x = Some v \<Longrightarrow>
                 nc1 - inv_timestamp x < W \<Longrightarrow> nc2 - inv_timestamp x < W"
  shows "length (filter (\<lambda>x. inv_vendor x = Some v \<and> nc1 - inv_timestamp x < W) L)
       \<le> length (filter (\<lambda>x. inv_vendor x = Some v \<and> nc2 - inv_timestamp x < W)
                  (drop (length L + 1 - 100) (L @ [y])))"
proof -
  let ?P1 = "\<lambda>x. inv_vendor x = Some v \<and> nc1 - inv_timestamp x < W"
  let ?P2 = "\<lambda>x. inv_vendor x = Some v \<and> nc2 - inv_timestamp x < W"
  let ?k = "length L + 1 - 100"
  have k: "?k \<le> 1" using len by simp
  have "length (filter ?P1 L) \<le> length (filter ?P2 L)"
    by (rule length_filter_mono) (auto intro: aged)
  moreover have "length (filter ?P2 (L @ [y])) = length (filter ?P2 L) + 1"
    using fresh vend by simp
  moreover have "length (filter ?P2 (L @ [y])) \<le> length (filter ?P2 (drop ?k (L @ [y]))) + ?k"
    by (rule length_filter_drop)
  ultimately show ?thesis using k by linarith
qed

text \<open>
  Claim C4, amended. Take an invoice with an invoice number and a vendor, and a ledger
  within its bound that does not hold the invoice number yet. Score the invoice twice, the
  second time on the ledger the first call left, less than an hour after the first call
  stored its entry and with no entry of the vendor leaving the one-hour or the 24-hour
  window in between. Then the second assessment carries the duplicate flag, and its score
  is at least the smaller of 1 and the first score plus 0.5: at least 0.5 higher whenever
  the first score is at most 0.5.
\<close>

theorem resubmission_is_flagged:
  assumes num: "invoice_number e = Some n" "n \<noteq> []"
    and ven: "vendor e = Some v" "v \<noteq> []"
    and len: "length L \<le> 100"
    and new: "\<forall>x \<in> set L. inv_invoice_number x \<noteq> Some n"
    and soon: "nc2 - ns1 < 3600"
    and aged: "\<forall>x \<in> set L. inv_vendor x = Some v \<longrightarrow>
                 (nc1 - inv_timestamp x < 3600 \<longrightarrow> nc2 - inv_timestamp x < 3600) \<and>
                 (nc1 - inv_timestamp x < 86400 \<longrightarrow> nc2 - inv_timestamp x < 86400)"
  shows "fst (duplicate_check (fst (detect nc2 ns2 (snd (detect nc1 ns1 L e)) e))) \<and>
         Duplicate_invoice (Already_processed n (Some v))
           \<in> set (flags (fst (detect nc2 ns2 (snd (detect nc1 ns1 L e)) e))) \<and>
         min 1 (risk_score (fst (detect nc1 ns1 L e)) + 5 / 10)
           \<le> risk_score (fst (detect nc2 ns2 (snd (detect nc1 ns1 L e)) e)) \<and>
         (risk_score (fst (detect nc1 ns1 L e)) \<le> 5 / 10 \<longrightarrow>
            risk_score (fst (detect nc1 ns1 L e)) + 5 / 10
              \<le> risk_score (fst (detect nc2 ns2 (snd (detect nc1 ns1 L e)) e)))"
proof -
  let ?y = "\<lparr>inv_invoice_number = invoice_number e, inv_vendor = vendor e,
              inv_amount = total_amount e, inv_date = date e, inv_timestamp = ns1\<rparr>"
  let ?k = "length L + 1 - 100"
  let ?L1 = "snd (detect nc1 ns1 L e)"
  let ?r1 = "fst (detect nc1 ns1 L e)"
  let ?r2 = "fst (detect nc2 ns2 ?L1 e)"
  have L1: "?L1 = drop ?k (L @ [?y])"
    by (simp add: detect_ledger store_invoice_drop)
  have L1': "?L1 = drop ?k L @ [?y]"
    unfolding L1 by simp
  have dup1: "check_duplicate L (invoice_number e) (vendor e) = (False, No_duplicate_found)"
    using num new by (simp add: check_duplicate_def find_duplicate_fresh)
  have "find_duplicate (drop ?k L @ [?y]) n (Some v) = (True, Already_processed n (Some v))"
    using new num ven by (intro find_duplicate_appended) (auto dest: in_set_dropD)
  then have dup2: "check_duplicate ?L1 (invoice_number e) (vendor e)
      = (True, Already_processed n (Some v))"
    using num ven by (simp add: check_duplicate_def L1')
  have hour: "length (filter (\<lambda>x. inv_vendor x = Some v \<and> nc1 - inv_timestamp x < 3600) L)
       \<le> length (filter (\<lambda>x. inv_vendor x = Some v \<and> nc2 - inv_timestamp x < 3600) ?L1)"
    unfolding L1 using len soon ven aged by (intro window_count_kept) auto
  have day: "length (filter (\<lambda>x. inv_vendor x = Some v \<and> nc1 - inv_timestamp x < 86400) L)
       \<le> length (filter (\<lambda>x. inv_vendor x = Some v \<and> nc2 - inv_timestamp x < 86400) ?L1)"
    unfolding L1 using len soon ven aged by (intro window_count_kept) auto
  have freq: "fst (check_vendor_frequency nc1 L (vendor e))
      \<Longrightarrow> fst (check_vendor_frequency nc2 ?L1 (vendor e))"
    using hour day ven by (simp add: frequency_fires_iff del: detect_ledger) linarith
  have raw: "snd (detect_checks nc1 L e) + 5 / 10 \<le> snd (detect_checks nc2 ?L1 e)"
    using freq by (simp add: snd_detect_checks dup1 dup2)
  have flag: "Duplicate_invoice (Already_processed n (Some v)) \<in> set (flags ?r2)"
    by (simp add: flags_member fst_detect_checks dup2)
  have check: "fst (duplicate_check ?r2)"
    by (simp only: detect_duplicate_check dup2 fst_conv)
  have score: "min 1 (risk_score ?r1 + 5 / 10) \<le> risk_score ?r2"
    using raw snd_detect_checks_nonneg [of nc1 L e]
    by (simp add: detect_risk_score min_def)
  then have exact: "risk_score ?r1 \<le> 5 / 10 \<longrightarrow> risk_score ?r1 + 5 / 10 \<le> risk_score ?r2"
    by (simp add: min_def split: if_splits)
  from check flag score exact show ?thesis by blast
qed

theorem resubmission_is_flagged_witness:
  "Duplicate_invoice (Already_processed ''INV-2025-001'' (Some ''Acme Corporation''))
     \<in> set (flags (fst (detect 10 10 (snd (detect 0 0 [filler] scenario_a)) scenario_a))) \<and>
   min 1 (risk_score (fst (detect 0 0 [filler] scenario_a)) + 5 / 10)
     \<le> risk_score (fst (detect 10 10 (snd (detect 0 0 [filler] scenario_a)) scenario_a))"
  using resubmission_is_flagged
    [of scenario_a "''INV-2025-001''" "''Acme Corporation''" "[filler]" 10 0 0 10]
  by (simp add: scenario_a_def filler_def)

text \<open>
  The claim as stated fails where the cap at 1.0 cuts the gain: a first score of 0.55
  (very high amount, round amount, tax of one percent) is followed by a second score of
  1.0, which is 0.45 higher.
\<close>

theorem resubmission_gain_is_capped:
  "risk_score (fst (detect 0 0 [] large_round_invoice)) = 55 / 100 \<and>
   Duplicate_invoice (Already_processed ''INV-2025-001'' (Some ''Acme Corporation''))
     \<in> set (flags (fst (detect 0 0 (snd (detect 0 0 [] large_round_invoice)) large_round_invoice))) \<and>
   risk_score (fst (detect 0 0 (snd (detect 0 0 [] large_round_invoice)) large_round_invoice)) = 1 \<and>
   risk_score (fst (detect 0 0 (snd (detect 0 0 [] large_round_invoice)) large_round_invoice))
     < risk_score (fst (detect 0 0 [] large_round_invoice)) + 5 / 10"
  by (simp add: large_round_invoice_def scenario_a_def eval_defs tax_check_at_one_percent)

end
